theory Spec2Isabelle
  imports Main
begin

section \<open>Data model (frontend/src/App.tsx, lines 17-44)\<close>

definition API_BASE_URL :: string where
  "API_BASE_URL = ''http://localhost:5000''"

text \<open>Values of the TypeScript type \<open>any\<close> (the fields \<open>target\<close> and \<open>phases\<close>, and the
  elements of \<open>vulnerabilities_found\<close>), which the component never inspects.\<close>

datatype json =
    JNull
  | JBool bool
  | JNum int
  | JStr string
  | JArr "json list"
  | JObj "(string \<times> json) list"

text \<open>The three interfaces. Field names carry a prefix where two interfaces share a name
  (\<open>id\<close>, \<open>timestamp\<close>); an optional field \<open>f?: T\<close> is a \<open>T option\<close>.\<close>

record Technique =
  tech_id :: int
  tech_name :: string
  tech_description :: string
  tech_category :: string
  tech_severity :: "string option"
  tech_tags :: "string list option"
  tech_timestamp :: "string option"

record AttackPlan =
  plan_id :: int
  plan_target :: json
  plan_objectives :: "string list"
  plan_status :: string
  plan_timestamp :: string
  plan_phases :: "json option"

record SafetyConfig =
  require_authorization :: bool
  log_all_activities :: bool
  block_unauthorized_targets :: bool
  max_concurrent_attacks :: int
  emergency_stop_enabled :: bool

section \<open>Component state and observable effects\<close>

text \<open>The bodies of the four POST requests, as the object literals of lines 82, 96-99,
  113-116 and 130-132 build them.\<close>

datatype post_body =
    Learn_body string
  | Plan_body json "string list"
  | Chatbot_body string string
  | Stop_body string

text \<open>What the component does to the outside world, in the order it does it.\<close>

datatype effect =
    Axios_get string
  | Axios_post string post_body
  | Alert string
  | Console_error

text \<open>The six \<open>useState\<close> cells of lines 47-52, and the log of effects so far.\<close>

record app =
  activeTab :: string
  techniques :: "Technique list"
  attackPlans :: "AttackPlan list"
  safetyConfig :: "SafetyConfig option"
  loading :: bool
  error :: "string option"
  effects :: "effect list"

definition App_init :: app where
  "App_init = \<lparr> activeTab = ''dashboard'', techniques = [], attackPlans = [],
     safetyConfig = None, loading = False, error = None, effects = [] \<rparr>"

definition setActiveTab :: "string \<Rightarrow> app \<Rightarrow> app" where
  "setActiveTab v w = w\<lparr>activeTab := v\<rparr>"

definition setTechniques :: "Technique list \<Rightarrow> app \<Rightarrow> app" where
  "setTechniques v w = w\<lparr>techniques := v\<rparr>"

definition setAttackPlans :: "AttackPlan list \<Rightarrow> app \<Rightarrow> app" where
  "setAttackPlans v w = w\<lparr>attackPlans := v\<rparr>"

definition setSafetyConfig :: "SafetyConfig option \<Rightarrow> app \<Rightarrow> app" where
  "setSafetyConfig v w = w\<lparr>safetyConfig := v\<rparr>"

definition setLoading :: "bool \<Rightarrow> app \<Rightarrow> app" where
  "setLoading v w = w\<lparr>loading := v\<rparr>"

definition setError :: "string option \<Rightarrow> app \<Rightarrow> app" where
  "setError v w = w\<lparr>error := v\<rparr>"

definition perform :: "effect \<Rightarrow> app \<Rightarrow> app" where
  "perform e w = w\<lparr>effects := effects w @ [e]\<rparr>"

definition axios_get :: "string \<Rightarrow> app \<Rightarrow> app" where
  "axios_get path w = perform (Axios_get (API_BASE_URL @ path)) w"

definition axios_post :: "string \<Rightarrow> post_body \<Rightarrow> app \<Rightarrow> app" where
  "axios_post path b w = perform (Axios_post (API_BASE_URL @ path) b) w"

definition alert :: "string \<Rightarrow> app \<Rightarrow> app" where
  "alert msg w = perform (Alert msg) w"

definition console_error :: "app \<Rightarrow> app" where
  "console_error w = perform Console_error w"

section \<open>Responses and exceptions\<close>

text \<open>\<open>response.data\<close> has type \<open>any\<close>. Reading a property of \<open>null\<close> or \<open>undefined\<close>
  throws a TypeError, reading an absent property of an object gives \<open>undefined\<close>. So a
  body is either null, or an object whose field of interest is absent (\<open>None\<close>) or
  present with a value of its declared type.\<close>

datatype 'a body = Null_body | Object_body "'a option"

text \<open>How the promise of one axios call settles.\<close>

datatype 'a response = Rejected | Resolved "'a body"

text \<open>How a \<open>try\<close> block ends, with the state it has reached by then.\<close>

datatype completion = Returned app | Thrown app

text \<open>The \<open>catch\<close> clause every operation has: \<open>setError(msg); console.error(err)\<close>.\<close>

definition try_catch :: "string \<Rightarrow> completion \<Rightarrow> app" where
  "try_catch msg c =
     (case c of Returned w \<Rightarrow> w | Thrown w \<Rightarrow> console_error (setError (Some msg) w))"

text \<open>Decimal digits of a length, as a template literal prints it.\<close>

function string_of_nat :: "nat \<Rightarrow> string" where
  "string_of_nat n =
     (if n < 10 then [char_of (48 + n)]
      else string_of_nat (n div 10) @ [char_of (48 + n mod 10)])"
  by pat_completeness auto
termination
  by (relation "measure id") auto

declare string_of_nat.simps [simp del]

section \<open>loadDashboardData (lines 59-77)\<close>

type_synonym refresh_responses =
  "Technique list response \<times> AttackPlan list response \<times> SafetyConfig response"

text \<open>Up to the \<open>await\<close>: \<open>setLoading(true)\<close> and the three GET requests that
  \<open>Promise.all\<close> receives.\<close>

definition loadDashboardData_begin :: "app \<Rightarrow> app" where
  "loadDashboardData_begin w0 =
     (let w1 = setLoading True w0;
          w2 = axios_get ''/api/knowledge/techniques'' w1;
          w3 = axios_get ''/api/attack/plans'' w2;
          w4 = axios_get ''/api/safety/config'' w3
      in w4)"

text \<open>The rest of the \<open>try\<close> block. \<open>Promise.all\<close> rejects as soon as one request does;
  lines 68-70 then run one after the other, each reading its response's \<open>data\<close>.\<close>

fun loadDashboardData_try :: "refresh_responses \<Rightarrow> app \<Rightarrow> completion" where
  "loadDashboardData_try (Resolved techniquesRes, Resolved attacksRes, Resolved safetyRes) w =
     (case techniquesRes of
        Null_body \<Rightarrow> Thrown w
      | Object_body ts \<Rightarrow>
          let w1 = setTechniques (case ts of Some x \<Rightarrow> x | None \<Rightarrow> []) w in
          (case attacksRes of
             Null_body \<Rightarrow> Thrown w1
           | Object_body ps \<Rightarrow>
               let w2 = setAttackPlans (case ps of Some x \<Rightarrow> x | None \<Rightarrow> []) w1 in
               (case safetyRes of
                  Null_body \<Rightarrow> Thrown w2
                | Object_body c \<Rightarrow> Returned (setSafetyConfig c w2))))"
| "loadDashboardData_try _ w = Thrown w"

definition loadDashboardData_settle :: "refresh_responses \<Rightarrow> app \<Rightarrow> app" where
  "loadDashboardData_settle rs w =
     setLoading False (try_catch ''Failed to load dashboard data'' (loadDashboardData_try rs w))"

definition loadDashboardData :: "refresh_responses \<Rightarrow> app \<Rightarrow> app" where
  "loadDashboardData rs w = loadDashboardData_settle rs (loadDashboardData_begin w)"

text \<open>The effect hook of lines 55-57 runs the refresh once, on mount.\<close>

definition mount :: "refresh_responses \<Rightarrow> app" where
  "mount rs = loadDashboardData rs App_init"

section \<open>learnFromUrl (lines 79-91)\<close>

definition learnFromUrl_begin :: "string \<Rightarrow> app \<Rightarrow> app" where
  "learnFromUrl_begin url w0 =
     (let w1 = setLoading True w0;
          w2 = axios_post ''/api/knowledge/learn/url'' (Learn_body url) w1
      in w2)"

text \<open>Line 83 reads \<open>response.data.techniques.length\<close>, which throws when the body or the
  field is missing. Line 84 calls \<open>loadDashboardData()\<close> and does not await it: the call
  runs up to its own \<open>await\<close> and returns.\<close>

fun learnFromUrl_try :: "Technique list response \<Rightarrow> app \<Rightarrow> completion" where
  "learnFromUrl_try (Resolved (Object_body (Some ts))) w =
     (let w1 = alert (''Successfully learned '' @ string_of_nat (length ts)
                       @ '' new techniques!'') w;
          w2 = loadDashboardData_begin w1
      in Returned w2)"
| "learnFromUrl_try _ w = Thrown w"

definition learnFromUrl_settle :: "Technique list response \<Rightarrow> app \<Rightarrow> app" where
  "learnFromUrl_settle r w =
     setLoading False (try_catch ''Failed to learn from URL'' (learnFromUrl_try r w))"

text \<open>The whole operation: the POST settles, \<open>finally\<close> runs, and the refresh that the
  \<open>try\<close> block started (if it did) settles afterwards with \<open>rs\<close>.\<close>

definition learnFromUrl ::
  "string \<Rightarrow> Technique list response \<Rightarrow> refresh_responses \<Rightarrow> app \<Rightarrow> app" where
  "learnFromUrl url r rs w0 =
     (let w1 = learnFromUrl_begin url w0;
          w2 = learnFromUrl_settle r w1
      in case learnFromUrl_try r w1 of
           Returned _ \<Rightarrow> loadDashboardData_settle rs w2
         | Thrown _ \<Rightarrow> w2)"

section \<open>createAttackPlan (lines 93-108)\<close>

definition createAttackPlan_begin :: "json \<Rightarrow> string list \<Rightarrow> app \<Rightarrow> app" where
  "createAttackPlan_begin target objectives w0 =
     (let w1 = setLoading True w0;
          w2 = axios_post ''/api/attack/plan'' (Plan_body target objectives) w1
      in w2)"

text \<open>The response is bound and never read.\<close>

fun createAttackPlan_try :: "'a response \<Rightarrow> app \<Rightarrow> completion" where
  "createAttackPlan_try (Resolved _) w =
     (let w1 = alert ''Attack plan created successfully!'' w;
          w2 = loadDashboardData_begin w1
      in Returned w2)"
| "createAttackPlan_try Rejected w = Thrown w"

definition createAttackPlan_settle :: "'a response \<Rightarrow> app \<Rightarrow> app" where
  "createAttackPlan_settle r w =
     setLoading False (try_catch ''Failed to create attack plan'' (createAttackPlan_try r w))"

definition createAttackPlan ::
  "json \<Rightarrow> string list \<Rightarrow> 'a response \<Rightarrow> refresh_responses \<Rightarrow> app \<Rightarrow> app" where
  "createAttackPlan target objectives r rs w0 =
     (let w1 = createAttackPlan_begin target objectives w0;
          w2 = createAttackPlan_settle r w1
      in case createAttackPlan_try r w1 of
           Returned _ \<Rightarrow> loadDashboardData_settle rs w2
         | Thrown _ \<Rightarrow> w2)"

section \<open>testChatbot (lines 110-126)\<close>

record TestSummary =
  risk_level :: "string option"

record ChatbotResults =
  vulnerabilities_found :: "json list option"
  test_summary :: "TestSummary option"

text \<open>\<open>testType\<close> has the default \<open>'basic'\<close>: \<open>None\<close> is the omitted argument.\<close>

definition testChatbot_begin :: "string \<Rightarrow> string option \<Rightarrow> app \<Rightarrow> app" where
  "testChatbot_begin url testType w0 =
     (let w1 = setLoading True w0;
          w2 = axios_post ''/api/attack/chatbot/test''
                 (Chatbot_body url (case testType of None \<Rightarrow> ''basic'' | Some t \<Rightarrow> t)) w1
      in w2)"

text \<open>Line 119 reads \<open>results.vulnerabilities_found.length\<close> and
  \<open>results.test_summary.risk_level\<close>; an absent \<open>risk_level\<close> prints as \<open>undefined\<close>.\<close>

fun testChatbot_try :: "ChatbotResults response \<Rightarrow> app \<Rightarrow> completion" where
  "testChatbot_try (Resolved (Object_body (Some results))) w =
     (case vulnerabilities_found results of
        None \<Rightarrow> Thrown w
      | Some vs \<Rightarrow>
          (case test_summary results of
             None \<Rightarrow> Thrown w
           | Some summary \<Rightarrow>
               Returned (alert (''Chatbot test completed!'' @ [CHR 0x0A]
                 @ ''Vulnerabilities found: '' @ string_of_nat (length vs) @ [CHR 0x0A]
                 @ ''Risk level: ''
                 @ (case risk_level summary of None \<Rightarrow> ''undefined'' | Some l \<Rightarrow> l)) w)))"
| "testChatbot_try _ w = Thrown w"

definition testChatbot_settle :: "ChatbotResults response \<Rightarrow> app \<Rightarrow> app" where
  "testChatbot_settle r w =
     setLoading False (try_catch ''Failed to test chatbot'' (testChatbot_try r w))"

definition testChatbot ::
  "string \<Rightarrow> string option \<Rightarrow> ChatbotResults response \<Rightarrow> app \<Rightarrow> app" where
  "testChatbot url testType r w =
     testChatbot_settle r (testChatbot_begin url testType w)"

section \<open>emergencyStop (lines 128-138)\<close>

definition emergencyStop_begin :: "app \<Rightarrow> app" where
  "emergencyStop_begin w =
     axios_post ''/api/safety/emergency-stop'' (Stop_body ''Manual emergency stop from UI'') w"

fun emergencyStop_try :: "'a response \<Rightarrow> app \<Rightarrow> completion" where
  "emergencyStop_try (Resolved _) w = Returned (alert ''Emergency stop activated!'' w)"
| "emergencyStop_try Rejected w = Thrown w"

definition emergencyStop_settle :: "'a response \<Rightarrow> app \<Rightarrow> app" where
  "emergencyStop_settle r w =
     try_catch ''Failed to activate emergency stop'' (emergencyStop_try r w)"

definition emergencyStop :: "'a response \<Rightarrow> app \<Rightarrow> app" where
  "emergencyStop r w = emergencyStop_settle r (emergencyStop_begin w)"

section \<open>Click handlers (lines 200-208, 244-252, 270-273, 308, 363-392)\<close>

text \<open>\<open>prompt\<close> returns \<open>null\<close> (here \<open>None\<close>) when the user cancels. \<open>if (url)\<close> is
  false for \<open>null\<close> and for the empty string.\<close>

definition learn_onClick ::
  "string option \<Rightarrow> Technique list response \<Rightarrow> refresh_responses \<Rightarrow> app \<Rightarrow> app" where
  "learn_onClick url r rs w =
     (case url of
        None \<Rightarrow> w
      | Some u \<Rightarrow> if u = [] then w else learnFromUrl u r rs w)"

definition egnyte_onClick ::
  "Technique list response \<Rightarrow> refresh_responses \<Rightarrow> app \<Rightarrow> app" where
  "egnyte_onClick r rs w =
     learnFromUrl ''https://www.egnyte.com/blog/post/ai-chatbot-security-understanding-key-risks-and-testing-best-practices'' r rs w"

text \<open>\<open>prompt(...) || ''\<close> for the name and the URL of the target.\<close>

definition plan_onClick ::
  "string option \<Rightarrow> string option \<Rightarrow> 'a response \<Rightarrow> refresh_responses \<Rightarrow> app \<Rightarrow> app" where
  "plan_onClick name url r rs w =
     (let target = JObj [(''name'', JStr (case name of None \<Rightarrow> [] | Some n \<Rightarrow> n)),
                         (''url'', JStr (case url of None \<Rightarrow> [] | Some u \<Rightarrow> u)),
                         (''type'', JStr ''web_application'')];
          objectives = [''Identify vulnerabilities'', ''Test security controls'']
      in createAttackPlan target objectives r rs w)"

text \<open>\<open>if (input.value) testChatbot(input.value)\<close>, the test type left to its default.\<close>

definition chatbot_onClick :: "string \<Rightarrow> ChatbotResults response \<Rightarrow> app \<Rightarrow> app" where
  "chatbot_onClick input_value r w =
     (if input_value = [] then w else testChatbot input_value None r w)"

datatype nav_button = Dashboard_tab | Knowledge_tab | Attack_tab | Safety_tab

fun nav_onClick :: "nav_button \<Rightarrow> app \<Rightarrow> app" where
  "nav_onClick Dashboard_tab w = setActiveTab ''dashboard'' w"
| "nav_onClick Knowledge_tab w = setActiveTab ''knowledge'' w"
| "nav_onClick Attack_tab w = setActiveTab ''attack'' w"
| "nav_onClick Safety_tab w = setActiveTab ''safety'' w"

section \<open>Observations used by the properties\<close>

text \<open>Whether a \<open>try\<close> block ran to its end (the operation succeeded) or threw (it
  failed and the \<open>catch\<close> clause ran).\<close>

fun succeeded :: "completion \<Rightarrow> bool" where
  "succeeded (Returned _) = True"
| "succeeded (Thrown _) = False"

text \<open>The three data slices of the session state.\<close>

definition slices :: "app \<Rightarrow> Technique list \<times> AttackPlan list \<times> SafetyConfig option" where
  "slices w = (techniques w, attackPlans w, safetyConfig w)"

text \<open>The effects performed between a state and a later one, and the network requests
  among them.\<close>

fun is_request :: "effect \<Rightarrow> bool" where
  "is_request (Axios_get _) = True"
| "is_request (Axios_post _ _) = True"
| "is_request _ = False"

definition issued :: "app \<Rightarrow> app \<Rightarrow> effect list" where
  "issued w w' = drop (length (effects w)) (effects w')"

definition requests :: "app \<Rightarrow> app \<Rightarrow> effect list" where
  "requests w w' = filter is_request (issued w w')"

text \<open>A sequence of refreshes, each run to completion before the next starts.\<close>

fun refreshes :: "refresh_responses list \<Rightarrow> app \<Rightarrow> app" where
  "refreshes [] w = w"
| "refreshes (rs # rss) w = refreshes rss (loadDashboardData rs w)"

section \<open>Basic facts\<close>

lemmas cell_defs = setActiveTab_def setTechniques_def setAttackPlans_def
  setSafetyConfig_def setLoading_def setError_def perform_def axios_get_def
  axios_post_def alert_def console_error_def try_catch_def

lemmas op_defs = loadDashboardData_def loadDashboardData_settle_def
  loadDashboardData_begin_def learnFromUrl_def learnFromUrl_settle_def
  learnFromUrl_begin_def createAttackPlan_def createAttackPlan_settle_def
  createAttackPlan_begin_def testChatbot_def testChatbot_settle_def testChatbot_begin_def
  emergencyStop_def emergencyStop_settle_def emergencyStop_begin_def

lemma string_of_nat_examples:
  "string_of_nat 0 = ''0''" "string_of_nat 3 = ''3''" "string_of_nat 120 = ''120''"
  by code_simp+

lemma loadDashboardData_try_rejected:
  "r1 = Rejected \<or> r2 = Rejected \<or> r3 = Rejected \<Longrightarrow>
     loadDashboardData_try (r1, r2, r3) w = Thrown w"
  by (cases r1; cases r2; cases r3) auto

lemma loadDashboardData_try_ok:
  "loadDashboardData_try
     (Resolved (Object_body t), Resolved (Object_body p), Resolved (Object_body c)) w =
   Returned (w\<lparr>techniques := (case t of Some x \<Rightarrow> x | None \<Rightarrow> []),
                attackPlans := (case p of Some x \<Rightarrow> x | None \<Rightarrow> []),
                safetyConfig := c\<rparr>)"
  by (simp add: cell_defs)

lemma succeeded_loadDashboardData_try:
  "succeeded (loadDashboardData_try rs w) \<longleftrightarrow>
     (\<exists>t p c. rs = (Resolved (Object_body t), Resolved (Object_body p),
                     Resolved (Object_body c)))"
proof -
  obtain r1 r2 r3 where rs: "rs = (r1, r2, r3)"
    by (cases rs) auto
  show ?thesis
    unfolding rs
    by (cases r1; cases r2; cases r3)
       (auto simp: Let_def split: body.splits)
qed

lemma succeeded_learnFromUrl_try:
  "succeeded (learnFromUrl_try r w) \<longleftrightarrow> (\<exists>ts. r = Resolved (Object_body (Some ts)))"
  by (cases "(r, w)" rule: learnFromUrl_try.cases) (auto simp: Let_def)

lemma succeeded_createAttackPlan_try:
  "succeeded (createAttackPlan_try r w) \<longleftrightarrow> (\<exists>b. r = Resolved b)"
  by (cases r) (auto simp: Let_def)

lemma succeeded_emergencyStop_try:
  "succeeded (emergencyStop_try r w) \<longleftrightarrow> (\<exists>b. r = Resolved b)"
  by (cases r) auto

lemma succeeded_testChatbot_try:
  "succeeded (testChatbot_try r w) \<longleftrightarrow>
     (\<exists>res vs s. r = Resolved (Object_body (Some res)) \<and> vulnerabilities_found res = Some vs
        \<and> test_summary res = Some s)"
  by (cases "(r, w)" rule: testChatbot_try.cases) (auto split: option.splits)

lemma loadDashboardData_ok:
  "loadDashboardData
     (Resolved (Object_body t), Resolved (Object_body p), Resolved (Object_body c)) w =
   w\<lparr>techniques := (case t of Some x \<Rightarrow> x | None \<Rightarrow> []),
     attackPlans := (case p of Some x \<Rightarrow> x | None \<Rightarrow> []),
     safetyConfig := c, loading := False,
     effects := effects w @
       [Axios_get (API_BASE_URL @ ''/api/knowledge/techniques''),
        Axios_get (API_BASE_URL @ ''/api/attack/plans''),
        Axios_get (API_BASE_URL @ ''/api/safety/config'')]\<rparr>"
  by (simp add: op_defs cell_defs)

lemma refreshes_snoc: "refreshes (pre @ [rs]) w = loadDashboardData rs (refreshes pre w)"
  by (induction pre arbitrary: w) simp_all

lemma effects_loadDashboardData_settle:
  "effects (loadDashboardData_settle rs w) =
     effects w @ (if succeeded (loadDashboardData_try rs w) then [] else [Console_error])"
  by (cases "(rs, w)" rule: loadDashboardData_try.cases)
     (simp_all add: loadDashboardData_settle_def cell_defs Let_def split: body.splits)

lemma activeTab_loadDashboardData: "activeTab (loadDashboardData rs w) = activeTab w"
  by (cases "(rs, w)" rule: loadDashboardData_try.cases)
     (simp_all add: loadDashboardData_def loadDashboardData_settle_def
        loadDashboardData_begin_def cell_defs Let_def split: body.splits)

lemma error_loadDashboardData_settle:
  "error (loadDashboardData_settle rs w) =
     (if succeeded (loadDashboardData_try rs w) then error w
      else Some ''Failed to load dashboard data'')"
  by (cases "(rs, w)" rule: loadDashboardData_try.cases)
     (simp_all add: loadDashboardData_settle_def cell_defs Let_def split: body.splits)

lemma refresh_failed_without_write:
  "r1 = Rejected \<or> r2 = Rejected \<or> r3 = Rejected \<or> r1 = Resolved Null_body \<Longrightarrow>
     slices (loadDashboardData (r1, r2, r3) w) = slices w"
  by (cases "((r1, r2, r3), loadDashboardData_begin w)" rule: loadDashboardData_try.cases)
     (auto simp: op_defs cell_defs slices_def Let_def)

lemma slices_loadDashboardData_begin: "slices (loadDashboardData_begin w) = slices w"
  by (simp add: loadDashboardData_begin_def cell_defs slices_def Let_def)

lemma write_failed_without_write:
  "\<not> succeeded (learnFromUrl_try q1 w) \<Longrightarrow> slices (learnFromUrl url q1 rs w) = slices w"
  "\<not> succeeded (createAttackPlan_try q2 w) \<Longrightarrow>
     slices (createAttackPlan target objectives q2 rs w) = slices w"
  by (cases "(q1, w)" rule: learnFromUrl_try.cases,
      simp_all add: learnFromUrl_def learnFromUrl_settle_def learnFromUrl_begin_def
        cell_defs slices_def Let_def)
     (cases q2,
      simp_all add: createAttackPlan_def createAttackPlan_settle_def
        createAttackPlan_begin_def cell_defs slices_def Let_def)

section \<open>Empty URL (C1)\<close>

text \<open>Called with the empty string, \<open>learnFromUrl\<close> and \<open>testChatbot\<close> do not reject it:
  on the freshly initialised component each sets \<open>loading\<close> and sends its POST request
  with the empty URL in the body.\<close>

theorem empty_url_reaches_network_counterexample:
  "loading (learnFromUrl_begin [] App_init) \<and>
   effects (learnFromUrl_begin [] App_init) =
     [Axios_post ''http://localhost:5000/api/knowledge/learn/url'' (Learn_body [])] \<and>
   loading (testChatbot_begin [] None App_init) \<and>
   effects (testChatbot_begin [] None App_init) =
     [Axios_post ''http://localhost:5000/api/attack/chatbot/test'' (Chatbot_body [] ''basic'')]"
  by (simp add: learnFromUrl_begin_def testChatbot_begin_def cell_defs App_init_def
        API_BASE_URL_def)

text \<open>C1, as the code has it: the check for an empty URL is made by the two click
  handlers, not by the operations. When the prompt is cancelled or left empty, or the
  input field is empty, the handler returns the state as it is, so no request is sent and
  \<open>loading\<close> does not change; with any non-empty text the handler calls the operation.\<close>

theorem empty_url_rejected_by_handlers:
  "learn_onClick None r rs w = w \<and>
   learn_onClick (Some []) r rs w = w \<and>
   chatbot_onClick [] r' w = w \<and>
   learn_onClick (Some (c # u)) r rs w = learnFromUrl (c # u) r rs w \<and>
   chatbot_onClick (c # u) r' w = testChatbot (c # u) None r' w"
  by (simp add: learn_onClick_def chatbot_onClick_def)

section \<open>The error slice (C2)\<close>

text \<open>After a failed initial load the error message is set. A refresh that then succeeds
  leaves the message in place, both while it is pending and when it has completed.\<close>

theorem error_not_cleared_counterexample:
  "error (mount (Rejected, Rejected, Rejected)) = Some ''Failed to load dashboard data'' \<and>
   error (loadDashboardData_begin (mount (Rejected, Rejected, Rejected)))
     = Some ''Failed to load dashboard data'' \<and>
   succeeded (loadDashboardData_try
     (Resolved (Object_body (Some [])), Resolved (Object_body (Some [])),
      Resolved (Object_body None)) (loadDashboardData_begin (mount (Rejected, Rejected, Rejected)))) \<and>
   error (loadDashboardData
     (Resolved (Object_body (Some [])), Resolved (Object_body (Some [])),
      Resolved (Object_body None)) (mount (Rejected, Rejected, Rejected)))
     = Some ''Failed to load dashboard data''"
  by (simp add: mount_def op_defs cell_defs App_init_def)

text \<open>C2, as the code has it: no operation clears the error slice. Entering the pending
  phase leaves \<open>error\<close> as it was; an operation that succeeds (for a write operation:
  together with the refresh it starts) leaves \<open>error\<close> as it was; a failing operation
  overwrites it with its own message. So \<open>error\<close> is null after a success only if it
  was null before.\<close>

theorem error_only_set_never_cleared:
  "error (loadDashboardData_begin w) = error w \<and>
   error (learnFromUrl_begin url w) = error w \<and>
   error (createAttackPlan_begin target objectives w) = error w \<and>
   error (testChatbot_begin url testType w) = error w \<and>
   error (emergencyStop_begin w) = error w \<and>
   error (loadDashboardData rs w) =
     (if succeeded (loadDashboardData_try rs w) then error w
      else Some ''Failed to load dashboard data'') \<and>
   error (learnFromUrl url r1 rs w) =
     (if succeeded (learnFromUrl_try r1 w)
      then (if succeeded (loadDashboardData_try rs w) then error w
            else Some ''Failed to load dashboard data'')
      else Some ''Failed to learn from URL'') \<and>
   error (createAttackPlan target objectives r2 rs w) =
     (if succeeded (createAttackPlan_try r2 w)
      then (if succeeded (loadDashboardData_try rs w) then error w
            else Some ''Failed to load dashboard data'')
      else Some ''Failed to create attack plan'') \<and>
   error (testChatbot url testType r3 w) =
     (if succeeded (testChatbot_try r3 w) then error w else Some ''Failed to test chatbot'') \<and>
   error (emergencyStop r4 w) =
     (if succeeded (emergencyStop_try r4 w) then error w
      else Some ''Failed to activate emergency stop'')"
proof (intro conjI)
  show "error (loadDashboardData rs w) =
     (if succeeded (loadDashboardData_try rs w) then error w
      else Some ''Failed to load dashboard data'')"
    by (simp add: loadDashboardData_def error_loadDashboardData_settle
          succeeded_loadDashboardData_try)
       (simp add: loadDashboardData_begin_def cell_defs)
  show "error (learnFromUrl url r1 rs w) =
     (if succeeded (learnFromUrl_try r1 w)
      then (if succeeded (loadDashboardData_try rs w) then error w
            else Some ''Failed to load dashboard data'')
      else Some ''Failed to learn from URL'')"
    by (cases "(r1, w)" rule: learnFromUrl_try.cases)
       (simp_all add: learnFromUrl_def learnFromUrl_settle_def learnFromUrl_begin_def
          loadDashboardData_begin_def error_loadDashboardData_settle
          succeeded_loadDashboardData_try cell_defs Let_def)
  show "error (createAttackPlan target objectives r2 rs w) =
     (if succeeded (createAttackPlan_try r2 w)
      then (if succeeded (loadDashboardData_try rs w) then error w
            else Some ''Failed to load dashboard data'')
      else Some ''Failed to create attack plan'')"
    by (cases r2)
       (simp_all add: createAttackPlan_def createAttackPlan_settle_def
          createAttackPlan_begin_def loadDashboardData_begin_def
          error_loadDashboardData_settle
          succeeded_loadDashboardData_try cell_defs Let_def)
  show "error (testChatbot url testType r3 w) =
     (if succeeded (testChatbot_try r3 w) then error w else Some ''Failed to test chatbot'')"
    by (cases "(r3, w)" rule: testChatbot_try.cases)
       (simp_all add: testChatbot_def testChatbot_settle_def testChatbot_begin_def
          cell_defs Let_def split: option.splits)
  show "error (emergencyStop r4 w) =
     (if succeeded (emergencyStop_try r4 w) then error w
      else Some ''Failed to activate emergency stop'')"
    by (cases r4)
       (simp_all add: emergencyStop_def emergencyStop_settle_def emergencyStop_begin_def
          cell_defs)
qed (simp_all add: op_defs cell_defs)

section \<open>The loading flag (C3)\<close>

text \<open>\<open>emergencyStop\<close> on the freshly initialised component has sent its request, and
  \<open>loading\<close> is still false.\<close>

theorem emergencyStop_skips_loading_counterexample:
  "effects (emergencyStop_begin App_init) =
     [Axios_post ''http://localhost:5000/api/safety/emergency-stop''
        (Stop_body ''Manual emergency stop from UI'')] \<and>
   \<not> loading (emergencyStop_begin App_init)"
  by (simp add: emergencyStop_begin_def cell_defs App_init_def API_BASE_URL_def)

text \<open>C3, as the code has it: refresh, \<open>learnFromUrl\<close>, \<open>createAttackPlan\<close> and
  \<open>testChatbot\<close> set \<open>loading\<close> when they start and clear it when they complete, whatever
  the response; a write operation clears it when its own request has settled, and it is
  clear again when the refresh it started has settled. \<open>emergencyStop\<close> never writes
  \<open>loading\<close>: the flag keeps its value when the operation starts and when it completes.\<close>

theorem loading_lifecycle:
  "loading (loadDashboardData_begin w) \<and>
   \<not> loading (loadDashboardData_settle rs w') \<and>
   \<not> loading (loadDashboardData rs w) \<and>
   loading (learnFromUrl_begin url w) \<and>
   \<not> loading (learnFromUrl_settle r1 w') \<and>
   \<not> loading (learnFromUrl url r1 rs w) \<and>
   loading (createAttackPlan_begin target objectives w) \<and>
   \<not> loading (createAttackPlan_settle r2 w') \<and>
   \<not> loading (createAttackPlan target objectives r2 rs w) \<and>
   loading (testChatbot_begin url testType w) \<and>
   \<not> loading (testChatbot_settle r3 w') \<and>
   \<not> loading (testChatbot url testType r3 w) \<and>
   loading (emergencyStop_begin w) = loading w \<and>
   loading (emergencyStop_settle r4 w') = loading w' \<and>
   loading (emergencyStop r4 w) = loading w"
proof -
  have stop: "loading (emergencyStop_settle r4 v) = loading v" for v
    by (cases r4) (simp_all add: emergencyStop_settle_def cell_defs)
  have refresh: "\<not> loading (loadDashboardData_settle rs v)" for v
    by (simp add: loadDashboardData_settle_def setLoading_def)
  have learn: "\<not> loading (learnFromUrl url r1 rs w)"
    by (cases "learnFromUrl_try r1 (learnFromUrl_begin url w)")
       (simp_all add: learnFromUrl_def Let_def refresh learnFromUrl_settle_def setLoading_def)
  have plan: "\<not> loading (createAttackPlan target objectives r2 rs w)"
    by (cases "createAttackPlan_try r2 (createAttackPlan_begin target objectives w)")
       (simp_all add: createAttackPlan_def Let_def refresh createAttackPlan_settle_def
          setLoading_def)
  show ?thesis
    using stop [of w'] stop [of "emergencyStop_begin w"] refresh [of w']
      refresh [of "loadDashboardData_begin w"] learn plan
    by (simp add: loadDashboardData_def loadDashboardData_begin_def learnFromUrl_begin_def
          learnFromUrl_settle_def createAttackPlan_begin_def createAttackPlan_settle_def
          testChatbot_begin_def testChatbot_settle_def testChatbot_def emergencyStop_def
          emergencyStop_begin_def setLoading_def perform_def axios_get_def axios_post_def
          Let_def)
qed

section \<open>Failure leaves the slices alone (C4)\<close>

text \<open>C4 says that an operation that fails leaves \<open>techniques\<close>, \<open>attackPlans\<close> and
  \<open>safetyConfig\<close> as they were. The refresh breaks this when all three requests resolve
  and the body of the second is \<open>null\<close>: line 68 has stored the new techniques when
  line 69 throws, and the \<open>catch\<close> clause then reports the failure. On the initial state,
  whose technique list is empty, the refresh ends with the error message set and with the
  fetched technique stored.\<close>

theorem refresh_partial_write:
  "techniques App_init = [] \<and>
   techniques (loadDashboardData
      (Resolved (Object_body (Some [\<lparr>tech_id = 1, tech_name = ''Prompt injection'',
          tech_description = ''Override the system prompt'', tech_category = ''llm'',
          tech_severity = Some ''high'', tech_tags = None, tech_timestamp = None\<rparr>])),
       Resolved Null_body,
       Resolved (Object_body None)) App_init)
     = [\<lparr>tech_id = 1, tech_name = ''Prompt injection'',
          tech_description = ''Override the system prompt'', tech_category = ''llm'',
          tech_severity = Some ''high'', tech_tags = None, tech_timestamp = None\<rparr>] \<and>
   error (loadDashboardData
      (Resolved (Object_body (Some [\<lparr>tech_id = 1, tech_name = ''Prompt injection'',
          tech_description = ''Override the system prompt'', tech_category = ''llm'',
          tech_severity = Some ''high'', tech_tags = None, tech_timestamp = None\<rparr>])),
       Resolved Null_body,
       Resolved (Object_body None)) App_init)
     = Some ''Failed to load dashboard data''"
  by (simp add: op_defs cell_defs App_init_def)

section \<open>Refresh replaces the slices (C5)\<close>

text \<open>C5: after any sequence of refreshes that ends with a successful one, the three
  slices are exactly what that last refresh fetched (an absent collection read as the
  empty list, as \<open>|| []\<close> does), whatever the state was before and whatever the earlier
  refreshes fetched: nothing of the prior state is merged in.\<close>

theorem refresh_replaces_wholesale:
  "slices (refreshes
      (pre @ [(Resolved (Object_body t), Resolved (Object_body p), Resolved (Object_body c))]) w)
   = (case t of Some x \<Rightarrow> x | None \<Rightarrow> [], case p of Some x \<Rightarrow> x | None \<Rightarrow> [], c)"
  by (simp add: refreshes_snoc loadDashboardData_ok slices_def)

section \<open>Refresh after write (C6)\<close>

text \<open>C6, on the server's answer. \<open>learnFromUrl\<close> succeeds when its POST resolves with a
  body that has a \<open>techniques\<close> list; \<open>createAttackPlan\<close> succeeds when its POST resolves,
  whatever the body. The network requests of the whole operation are then the POST
  followed by the three GET requests of one refresh, each once, whatever the refresh
  itself receives. In every other case (the POST rejected; for \<open>learnFromUrl\<close> also a
  \<open>null\<close> body or a body without \<open>techniques\<close>) the operation fails and the POST is
  its only request.\<close>

theorem write_refreshes_once:
  "requests w (learnFromUrl url (Resolved (Object_body (Some ts))) rs w) =
     [Axios_post (API_BASE_URL @ ''/api/knowledge/learn/url'') (Learn_body url),
      Axios_get (API_BASE_URL @ ''/api/knowledge/techniques''),
      Axios_get (API_BASE_URL @ ''/api/attack/plans''),
      Axios_get (API_BASE_URL @ ''/api/safety/config'')] \<and>
   requests w (learnFromUrl url Rejected rs w) =
     [Axios_post (API_BASE_URL @ ''/api/knowledge/learn/url'') (Learn_body url)] \<and>
   requests w (learnFromUrl url (Resolved Null_body) rs w) =
     [Axios_post (API_BASE_URL @ ''/api/knowledge/learn/url'') (Learn_body url)] \<and>
   requests w (learnFromUrl url (Resolved (Object_body None)) rs w) =
     [Axios_post (API_BASE_URL @ ''/api/knowledge/learn/url'') (Learn_body url)] \<and>
   requests w (createAttackPlan target objectives (Resolved b) rs w) =
     [Axios_post (API_BASE_URL @ ''/api/attack/plan'') (Plan_body target objectives),
      Axios_get (API_BASE_URL @ ''/api/knowledge/techniques''),
      Axios_get (API_BASE_URL @ ''/api/attack/plans''),
      Axios_get (API_BASE_URL @ ''/api/safety/config'')] \<and>
   requests w (createAttackPlan target objectives Rejected rs w) =
     [Axios_post (API_BASE_URL @ ''/api/attack/plan'') (Plan_body target objectives)]"
proof -
  have learn: "effects (learnFromUrl_begin url w) =
      effects w @ [Axios_post (API_BASE_URL @ ''/api/knowledge/learn/url'') (Learn_body url)]"
    by (simp add: learnFromUrl_begin_def cell_defs Let_def)
  have plan: "effects (createAttackPlan_begin target objectives w) =
      effects w @ [Axios_post (API_BASE_URL @ ''/api/attack/plan'')
        (Plan_body target objectives)]"
    by (simp add: createAttackPlan_begin_def cell_defs Let_def)
  have started: "effects (loadDashboardData_begin (alert msg v)) =
      effects v @ [Alert msg,
        Axios_get (API_BASE_URL @ ''/api/knowledge/techniques''),
        Axios_get (API_BASE_URL @ ''/api/attack/plans''),
        Axios_get (API_BASE_URL @ ''/api/safety/config'')]" for msg v
    by (simp add: loadDashboardData_begin_def cell_defs Let_def)
  show ?thesis
    by (simp add: requests_def issued_def learnFromUrl_def learnFromUrl_settle_def
          createAttackPlan_def createAttackPlan_settle_def Let_def learn plan started
          effects_loadDashboardData_settle setLoading_def setError_def try_catch_def
          console_error_def perform_def)
qed

section \<open>emergencyStop (C7)\<close>

text \<open>C7: \<open>emergencyStop\<close> leaves the three slices as they were and sends one request,
  its POST, so no refresh; when the request resolves it shows the alert
  \<open>Emergency stop activated!\<close> and leaves \<open>error\<close> alone, and when the request is
  rejected it sets \<open>error\<close>.\<close>

theorem emergencyStop_frame:
  "slices (emergencyStop r w) = slices w \<and>
   requests w (emergencyStop r w) =
     [Axios_post (API_BASE_URL @ ''/api/safety/emergency-stop'')
        (Stop_body ''Manual emergency stop from UI'')] \<and>
   issued w (emergencyStop (Resolved b) w) =
     [Axios_post (API_BASE_URL @ ''/api/safety/emergency-stop'')
        (Stop_body ''Manual emergency stop from UI''),
      Alert ''Emergency stop activated!''] \<and>
   error (emergencyStop (Resolved b) w) = error w \<and>
   error (emergencyStop Rejected w) = Some ''Failed to activate emergency stop''"
  by (cases r)
     (simp_all add: slices_def requests_def issued_def emergencyStop_def
        emergencyStop_settle_def emergencyStop_begin_def cell_defs)

section \<open>View selector (C8)\<close>

text \<open>C8: the active view is \<open>dashboard\<close> initially and after the load on mount; each of
  the four navigation buttons, clicked in any state, makes its own view the active one
  and changes nothing else: the slices, \<open>loading\<close>, \<open>error\<close> and the effects (so the
  requests sent) are as before.\<close>

theorem view_selector_frame:
  "activeTab App_init = ''dashboard'' \<and>
   activeTab (mount rs) = ''dashboard'' \<and>
   nav_onClick Dashboard_tab w = w\<lparr>activeTab := ''dashboard''\<rparr> \<and>
   nav_onClick Knowledge_tab w = w\<lparr>activeTab := ''knowledge''\<rparr> \<and>
   nav_onClick Attack_tab w = w\<lparr>activeTab := ''attack''\<rparr> \<and>
   nav_onClick Safety_tab w = w\<lparr>activeTab := ''safety''\<rparr> \<and>
   slices (nav_onClick b w) = slices w \<and>
   loading (nav_onClick b w) = loading w \<and>
   error (nav_onClick b w) = error w \<and>
   effects (nav_onClick b w) = effects w"
  by (cases b)
     (simp_all add: mount_def activeTab_loadDashboardData App_init_def setActiveTab_def
        slices_def)

section \<open>Refresh is atomic over rejected requests (C9)\<close>

text \<open>C9: when one of the three requests of a refresh is rejected, none of the three
  slices changes; a refresh that changes a slice has had all three requests resolved.\<close>

theorem refresh_atomic_on_rejection:
  "(r1 = Rejected \<or> r2 = Rejected \<or> r3 = Rejected \<longrightarrow>
      slices (loadDashboardData (r1, r2, r3) w) = slices w) \<and>
   (slices (loadDashboardData (r1, r2, r3) w) \<noteq> slices w \<longrightarrow>
      (\<exists>b1 b2 b3. r1 = Resolved b1 \<and> r2 = Resolved b2 \<and> r3 = Resolved b3))"
proof -
  have frame: "slices (loadDashboardData (r1, r2, r3) w) = slices w"
    if "r1 = Rejected \<or> r2 = Rejected \<or> r3 = Rejected"
  proof -
    from that have "loadDashboardData_try (r1, r2, r3) (loadDashboardData_begin w)
        = Thrown (loadDashboardData_begin w)"
      by (rule loadDashboardData_try_rejected)
    then show ?thesis
      by (simp add: op_defs cell_defs slices_def)
  qed
  have "\<exists>b1 b2 b3. r1 = Resolved b1 \<and> r2 = Resolved b2 \<and> r3 = Resolved b3"
    if "slices (loadDashboardData (r1, r2, r3) w) \<noteq> slices w"
  proof -
    from that frame have "r1 \<noteq> Rejected" "r2 \<noteq> Rejected" "r3 \<noteq> Rejected"
      by blast+
    then show ?thesis
      by (cases r1; cases r2; cases r3) simp_all
  qed
  with frame show ?thesis
    by blast
qed

text \<open>An instance: the techniques arrive, the request for the plans is rejected, and the
  slices of the initial state stay; and a refresh whose three requests resolve, with one
  technique fetched, changes them.\<close>

theorem refresh_atomic_on_rejection_witness:
  "slices (loadDashboardData
      (Resolved (Object_body (Some [\<lparr>tech_id = 1, tech_name = ''Prompt injection'',
          tech_description = ''Override the system prompt'', tech_category = ''llm'',
          tech_severity = Some ''high'', tech_tags = None, tech_timestamp = None\<rparr>])),
       Rejected,
       Resolved (Object_body None)) App_init) = slices App_init \<and>
   slices (loadDashboardData
      (Resolved (Object_body (Some [\<lparr>tech_id = 1, tech_name = ''Prompt injection'',
          tech_description = ''Override the system prompt'', tech_category = ''llm'',
          tech_severity = Some ''high'', tech_tags = None, tech_timestamp = None\<rparr>])),
       Resolved (Object_body None),
       Resolved (Object_body None)) App_init) \<noteq> slices App_init \<and>
   (\<exists>b1 b2 b3.
      Resolved (Object_body (Some [\<lparr>tech_id = 1, tech_name = ''Prompt injection'',
          tech_description = ''Override the system prompt'', tech_category = ''llm'',
          tech_severity = Some ''high'', tech_tags = None, tech_timestamp = None\<rparr>]))
        = Resolved b1 \<and>
      (Resolved (Object_body None) :: AttackPlan list response) = Resolved b2 \<and>
      (Resolved (Object_body None) :: SafetyConfig response) = Resolved b3)"
proof -
  have changed: "slices (loadDashboardData
      (Resolved (Object_body (Some [\<lparr>tech_id = 1, tech_name = ''Prompt injection'',
          tech_description = ''Override the system prompt'', tech_category = ''llm'',
          tech_severity = Some ''high'', tech_tags = None, tech_timestamp = None\<rparr>])),
       Resolved (Object_body None),
       Resolved (Object_body None)) App_init) \<noteq> slices App_init"
    by (simp add: loadDashboardData_ok slices_def App_init_def)
  show ?thesis
    using changed
      refresh_atomic_on_rejection
        [of "Resolved (Object_body (Some [\<lparr>tech_id = 1, tech_name = ''Prompt injection'',
          tech_description = ''Override the system prompt'', tech_category = ''llm'',
          tech_severity = Some ''high'', tech_tags = None, tech_timestamp = None\<rparr>]))"
          Rejected "Resolved (Object_body None)" App_init]
      refresh_atomic_on_rejection
        [of "Resolved (Object_body (Some [\<lparr>tech_id = 1, tech_name = ''Prompt injection'',
          tech_description = ''Override the system prompt'', tech_category = ''llm'',
          tech_severity = Some ''high'', tech_tags = None, tech_timestamp = None\<rparr>]))"
          "Resolved (Object_body None)" "Resolved (Object_body None)" App_init]
    by simp
qed

section \<open>testChatbot (C10)\<close>

text \<open>C10: \<open>testChatbot\<close> leaves the three slices and the active view as they were for
  every URL, test type and response, and ends with \<open>loading\<close> false; \<open>error\<close> changes
  only when the test fails. When the test succeeds the state afterwards is the state
  before with \<open>loading\<close> false: the number of vulnerabilities and the risk level go into
  the alert and nowhere else.\<close>

theorem testChatbot_frame:
  "slices (testChatbot url testType r w) = slices w \<and>
   activeTab (testChatbot url testType r w) = activeTab w \<and>
   loading (testChatbot url testType r w) = False \<and>
   error (testChatbot url testType r w) =
     (if succeeded (testChatbot_try r w) then error w else Some ''Failed to test chatbot'') \<and>
   testChatbot url testType
     (Resolved (Object_body (Some \<lparr>vulnerabilities_found = Some vs,
        test_summary = Some \<lparr>risk_level = level\<rparr>\<rparr>))) w =
     w\<lparr>loading := False,
       effects := effects w @
         [Axios_post (API_BASE_URL @ ''/api/attack/chatbot/test'')
            (Chatbot_body url (case testType of None \<Rightarrow> ''basic'' | Some t \<Rightarrow> t)),
          Alert (''Chatbot test completed!'' @ [CHR 0x0A]
            @ ''Vulnerabilities found: '' @ string_of_nat (length vs) @ [CHR 0x0A]
            @ ''Risk level: '' @ (case level of None \<Rightarrow> ''undefined'' | Some l \<Rightarrow> l))]\<rparr>"
  by (cases "(r, w)" rule: testChatbot_try.cases)
     (simp_all add: slices_def testChatbot_def testChatbot_settle_def testChatbot_begin_def
        cell_defs Let_def split: option.splits)

end
